theory Spec2Isabelle
  imports Complex_Main "HOL-Library.Sublist" "HOL-Library.Log_Nat"
begin

section \<open>Python string operations used by the classifier\<close>

text \<open>
  A Python \<open>str\<close> is modelled as a \<open>string\<close>, one \<open>char\<close> per code point, so the
  development covers text whose code points are below 256 (ASCII and Latin-1).
  On that range \<open>str.lower\<close> maps \<open>A..Z\<close> and the Latin-1 capitals
  (192..222 except the multiplication sign 215) to the code point 32 above and leaves
  every other character alone; \<open>str.strip()\<close> and \<open>str.split()\<close> treat the code points
  9..13, 28..32, 133 and 160 as whitespace.
\<close>

definition lower_char :: "char \<Rightarrow> char" where
  "lower_char c =
     (let n = (of_char c :: nat) in
      if (65 \<le> n \<and> n \<le> 90) \<or> (192 \<le> n \<and> n \<le> 222 \<and> n \<noteq> 215)
      then char_of (n + 32) else c)"

definition lower :: "string \<Rightarrow> string" where
  "lower s = map lower_char s"

definition isspace :: "char \<Rightarrow> bool" where
  "isspace c =
     (let n = (of_char c :: nat) in
      (9 \<le> n \<and> n \<le> 13) \<or> (28 \<le> n \<and> n \<le> 32) \<or> n = 133 \<or> n = 160)"

text \<open>\<open>s.strip()\<close>: leading and trailing whitespace removed.\<close>

definition strip :: "string \<Rightarrow> string" where
  "strip s = rev (dropWhile isspace (rev (dropWhile isspace s)))"

text \<open>
  \<open>s.split()\<close>: the maximal runs of non-whitespace characters, in order.  The first
  argument is the word being read, reversed.
\<close>

fun split_from :: "string \<Rightarrow> string \<Rightarrow> string list" where
  "split_from w [] = (if w = [] then [] else [rev w])"
| "split_from w (c # cs) =
     (if isspace c then (if w = [] then split_from [] cs else rev w # split_from [] cs)
      else split_from (c # w) cs)"

definition split :: "string \<Rightarrow> string list" where
  "split s = split_from [] s"

text \<open>\<open>sub in s\<close> on strings: \<open>sub\<close> occurs in \<open>s\<close> as a contiguous substring.\<close>

fun str_in :: "string \<Rightarrow> string \<Rightarrow> bool" where
  "str_in sub [] = (sub = [])"
| "str_in sub (c # cs) = (prefix sub (c # cs) \<or> str_in sub cs)"

text \<open>\<open>s.startswith(p)\<close> and \<open>s.endswith(p)\<close>.\<close>

definition startswith :: "string \<Rightarrow> string \<Rightarrow> bool" where
  "startswith s p = prefix p s"

definition endswith :: "string \<Rightarrow> string \<Rightarrow> bool" where
  "endswith s p = suffix p s"

text \<open>\<open>any(w in text for w in ws)\<close>.\<close>

definition any_in :: "string list \<Rightarrow> string \<Rightarrow> bool" where
  "any_in ws text = list_ex (\<lambda>w. str_in w text) ws"

section \<open>PromotionalDetector: \<open>is_promotional_content\<close>\<close>

definition promo_indicators :: "string list" where
  "promo_indicators =
    [''watch the video'', ''tutorial below'', ''link in bio'', ''dm me'', ''check out'',
     ''affiliate'', ''sponsored'', ''promotion'', ''advertisement'', ''buy now'',
     ''limited time'', ''special offer'', ''discount'', ''sale'', ''deal'',
     ''click here'', ''subscribe'', ''follow me'', ''my channel'', ''my course'',
     ''will change everything'', ''secret method'', ''exposed'', ''truth about'',
     ''nobody talks about'', ''revolutionary'', ''game changer'']"

definition url_patterns :: "string list" where
  "url_patterns = [''youtube.com'', ''youtu.be'', ''bit.ly'', ''tinyurl.com'', ''goo.gl'']"

text \<open>The f-string \<open>f"{title} {content}".lower()\<close>.\<close>

definition combined_text :: "string \<Rightarrow> string \<Rightarrow> string" where
  "combined_text title content = lower (title @ '' '' @ content)"

text \<open>
  One \<open>for\<close> loop of the detector: \<open>promo_score += 1\<close> for every phrase of the list
  that occurs in the text.
\<close>

definition count_loop :: "string list \<Rightarrow> string \<Rightarrow> nat \<Rightarrow> nat" where
  "count_loop phrases text promo_score =
     fold (\<lambda>p sc. if str_in p text then sc + 1 else sc) phrases promo_score"

text \<open>The value of \<open>promo_score\<close> after both loops, on the lowercased text.\<close>

definition promo_score :: "string \<Rightarrow> nat" where
  "promo_score text = count_loop url_patterns text (count_loop promo_indicators text 0)"

definition is_promotional_content :: "string \<Rightarrow> string \<Rightarrow> bool" where
  "is_promotional_content title content = (promo_score (combined_text title content) \<ge> 2)"

section \<open>QuestionDetector: \<open>is_genuine_question\<close>\<close>

definition question_words :: "string list" where
  "question_words = [''?'', ''how'', ''what'', ''why'', ''which'', ''where'', ''when'', ''who'']"

definition help_words :: "string list" where
  "help_words = [''help'', ''advice'', ''recommend'', ''suggest'', ''opinion'', ''thoughts'']"

definition seeking_words :: "string list" where
  "seeking_words = [''looking for'', ''need'', ''want'', ''seeking'', ''trying to find'']"

definition is_genuine_question :: "string \<Rightarrow> string \<Rightarrow> bool" where
  "is_genuine_question title content =
     (let text = combined_text title content;
          has_question_word = any_in question_words text;
          has_help_word = any_in help_words text;
          has_seeking_word = any_in seeking_words text
      in has_question_word \<or> has_help_word \<or> has_seeking_word)"

section \<open>Python floats\<close>

text \<open>
  A Python float is an IEEE-754 binary64 number.  It is modelled by the real number it
  denotes, and every arithmetic operation returns the exact result rounded to the nearest
  number with a 53-bit significand, ties to the even significand.  The exponent range is
  not bounded; the scores computed here are 0 or lie between 0.04 and 7, far from
  overflow and from the subnormal numbers.
\<close>

text \<open>The power \<open>2 ^ e\<close> for an integer exponent.\<close>

definition pow2 :: "int \<Rightarrow> real" where
  "pow2 e = (if 0 \<le> e then 2 ^ nat e else 1 / 2 ^ nat (- e))"

text \<open>For \<open>x > 0\<close>, the exponent \<open>e\<close> with \<open>2 ^ e \<le> x < 2 ^ (e + 1)\<close>.\<close>

definition binade :: "real \<Rightarrow> int" where
  "binade x = (if 1 \<le> x then int (floorlog 2 (nat \<lfloor>x\<rfloor>)) - 1
               else - int (floorlog 2 (nat (\<lceil>1 / x\<rceil> - 1))))"

definition round_half_even :: "real \<Rightarrow> int" where
  "round_half_even y =
     (let f = \<lfloor>y\<rfloor>; r = y - of_int f in
      if r < 1 / 2 then f else if 1 / 2 < r then f + 1 else if even f then f else f + 1)"

text \<open>
  For \<open>x > 0\<close>: the doubles between \<open>2 ^ e\<close> and \<open>2 ^ (e + 1)\<close> are the multiples of
  \<open>2 ^ (e - 52)\<close>, and \<open>x\<close> goes to the nearest of them.
\<close>

definition nearest :: "real \<Rightarrow> real" where
  "nearest x = (let q = pow2 (binade x - 52) in q * of_int (round_half_even (x / q)))"

definition round_double :: "real \<Rightarrow> real" where
  "round_double x = (if x = 0 then 0 else if 0 < x then nearest x else - nearest (- x))"

text \<open>A decimal literal of the source denotes the double nearest to it.\<close>

definition float_lit :: "real \<Rightarrow> real" where
  "float_lit r = round_double r"

text \<open>\<open>a + b\<close> and \<open>a * b\<close> on floats.\<close>

definition float_add :: "real \<Rightarrow> real \<Rightarrow> real" where
  "float_add a b = round_double (a + b)"

definition float_mul :: "real \<Rightarrow> real \<Rightarrow> real" where
  "float_mul a b = round_double (a * b)"

section \<open>RelevanceScorer: \<open>calculate_enhanced_relevance_score\<close>\<close>

definition seo_related :: "string list" where
  "seo_related =
    [''search engine optimization'', ''digital marketing'', ''google ranking'',
     ''website traffic'', ''keyword research'', ''backlinks'', ''optimization'',
     ''ranking'', ''search engine'', ''google'', ''marketing'', ''traffic'',
     ''organic'', ''serp'', ''meta'', ''analytics'']"

definition course_related :: "string list" where
  "course_related =
    [''tutorial'', ''learn'', ''training'', ''education'', ''class'', ''lesson'',
     ''certification'', ''certificate'', ''program'', ''bootcamp'', ''academy'',
     ''instructor'', ''teacher'', ''beginner'', ''advanced'', ''online learning'']"

definition question_contexts :: "string list" where
  "question_contexts =
    [''best course'', ''recommend course'', ''good course'', ''which course'',
     ''course recommendation'', ''learning'', ''study'', ''beginner'',
     ''start with'', ''where to learn'', ''how to learn'']"

text \<open>\<open>for term in terms: if term in full_text: score += 0.15\<close>.\<close>

definition related_loop :: "string list \<Rightarrow> string \<Rightarrow> real \<Rightarrow> real" where
  "related_loop terms full_text score =
     fold (\<lambda>term sc. if str_in term full_text then float_add sc (float_lit 0.15) else sc)
       terms score"

text \<open>\<open>for context in question_contexts: if context in full_text: score += 0.2; break\<close>.\<close>

fun context_loop :: "string list \<Rightarrow> string \<Rightarrow> real \<Rightarrow> real" where
  "context_loop [] full_text score = score"
| "context_loop (context # rest) full_text score =
     (if str_in context full_text then float_add score (float_lit 0.2)
      else context_loop rest full_text score)"

definition calculate_enhanced_relevance_score :: "string \<Rightarrow> string \<Rightarrow> string \<Rightarrow> real" where
  "calculate_enhanced_relevance_score title content keyword =
    (let keyword_lower = lower keyword;
         title_lower = lower title;
         content_lower = (if content \<noteq> [] then lower content else []);
         full_text = title_lower @ '' '' @ content_lower;
         score0 = float_lit 0.0;
         score1 =
           (if str_in keyword_lower title_lower then
              (let title_words = split title_lower in
               if list_ex (\<lambda>word. str_in keyword_lower word \<or> str_in word keyword_lower)
                    title_words
               then float_add (float_add score0 (float_lit 0.5)) (float_lit 0.2)
               else float_add score0 (float_lit 0.5))
            else score0);
         score2 = (if str_in keyword_lower content_lower
                   then float_add score1 (float_lit 0.3) else score1);
         score3 = (if str_in ''seo'' keyword_lower
                   then related_loop seo_related full_text score2 else score2);
         score4 = (if str_in ''course'' keyword_lower
                   then related_loop course_related full_text score3 else score3);
         score5 = context_loop question_contexts full_text score4;
         score6 = (if is_promotional_content title content
                   then float_mul score5 (float_lit 0.3) else score5)
     in min score6 (float_lit 1.0))"

subsection \<open>The additive bonuses as the specification lists them\<close>

text \<open>
  The specification describes the score as a sum of bonuses: 0.5 for the keyword in the
  title and 0.2 more when a title word and the keyword contain one another, 0.3 for the
  keyword in the body, 0.15 per matching term of each domain lexicon that applies, and 0.2
  once when any question-context phrase occurs.  \<open>spec_bonuses\<close> lists them in that
  order, written from the specification's words, and \<open>spec_additive_sum\<close> adds them one
  after another as floats, starting from 0.0.
\<close>

definition spec_title_bonus :: "string \<Rightarrow> string \<Rightarrow> real list" where
  "spec_title_bonus title keyword =
     (if str_in (lower keyword) (lower title) then
        float_lit 0.5 #
        (if list_ex (\<lambda>word. str_in (lower keyword) word \<or> str_in word (lower keyword))
              (split (lower title))
         then [float_lit 0.2] else [])
      else [])"

definition spec_body_bonus :: "string \<Rightarrow> string \<Rightarrow> real list" where
  "spec_body_bonus content keyword =
     (if str_in (lower keyword) (lower content) then [float_lit 0.3] else [])"

definition spec_lexicon_bonus :: "string \<Rightarrow> string list \<Rightarrow> string \<Rightarrow> string \<Rightarrow> real list" where
  "spec_lexicon_bonus trigger lexicon keyword text =
     (if str_in trigger (lower keyword)
      then replicate (length (filter (\<lambda>term. str_in term text) lexicon)) (float_lit 0.15)
      else [])"

definition spec_context_bonus :: "string \<Rightarrow> real list" where
  "spec_context_bonus text = (if any_in question_contexts text then [float_lit 0.2] else [])"

definition spec_bonuses :: "string \<Rightarrow> string \<Rightarrow> string \<Rightarrow> real list" where
  "spec_bonuses title content keyword =
     spec_title_bonus title keyword @ spec_body_bonus content keyword
     @ spec_lexicon_bonus ''seo'' seo_related keyword (combined_text title content)
     @ spec_lexicon_bonus ''course'' course_related keyword (combined_text title content)
     @ spec_context_bonus (combined_text title content)"

definition float_sum :: "real list \<Rightarrow> real" where
  "float_sum bonuses = foldl float_add (float_lit 0.0) bonuses"

definition spec_additive_sum :: "string \<Rightarrow> string \<Rightarrow> string \<Rightarrow> real" where
  "spec_additive_sum title content keyword = float_sum (spec_bonuses title content keyword)"

section \<open>CommentQualityFilter: \<open>is_meaningful_comment\<close>\<close>

definition low_quality :: "string list" where
  "low_quality =
    [''thanks'', ''thank you'', ''thx'', ''+1'', ''same'', ''this'', ''agreed'',
     ''yes'', ''no'', ''upvoted'', ''bump'', ''following'', ''interested'',
     ''me too'', ''same here'', ''lol'', ''nice'', ''cool'', ''good luck'']"

definition meaningful_indicators :: "string list" where
  "meaningful_indicators =
    [''recommend'', ''suggest'', ''try'', ''use'', ''check out'', ''experience'',
     ''worked for me'', ''helped me'', ''solution'', ''answer'', ''result'']"

definition is_meaningful_comment :: "string \<Rightarrow> bool" where
  "is_meaningful_comment comment_body =
    (if comment_body = [] \<or> length (strip comment_body) < 15 then False
     else
       (let comment_lower = strip (lower comment_body) in
        if comment_lower \<in> set low_quality then False
        else
          (let word_count = length (split comment_body);
               has_meaningful_content = any_in meaningful_indicators comment_lower
           in word_count \<ge> 5 \<and> (has_meaningful_content \<or> word_count \<ge> 20))))"

section \<open>UnansweredClassifier: \<open>is_unanswered_enhanced\<close>\<close>

text \<open>
  Any Python exception; both handlers are bare \<open>except:\<close> clauses, so its kind is
  never inspected.
\<close>

datatype exn = Exception

text \<open>
  An object of the comment forest.  \<open>body = None\<close> is an object without a \<open>body\<close>
  attribute (an unexpanded "load more" placeholder), for which \<open>hasattr\<close> is false.
\<close>

record comment =
  body :: "string option"

text \<open>
  A submission as the classifier sees it.  Reading \<open>submission.num_comments\<close> is the
  only operation of the outer \<open>try\<close> block that lies outside the inner one, so it is the
  operation the outer handler guards: \<open>num_comments s k\<close> is the outcome of the \<open>k\<close>-th
  read of the attribute, a value or an exception.  \<open>comments s\<close> is the outcome of
  \<open>submission.comments.replace_more(limit=1)\<close> followed by the access to the forest:
  an exception, or the top-level objects in order.
\<close>

record submission =
  title :: string
  selftext :: string
  score :: int
  num_comments :: "nat \<Rightarrow> exn + int"
  comments :: "exn + comment list"

text \<open>What the call has done to the API so far: attribute reads and comment fetches.\<close>

record api_log =
  reads :: nat
  fetches :: nat

definition read_num_comments :: "submission \<Rightarrow> api_log \<Rightarrow> (exn + int) \<times> api_log" where
  "read_num_comments s st = (num_comments s (reads st), st\<lparr>reads := reads st + 1\<rparr>)"

definition fetch_comments :: "submission \<Rightarrow> api_log \<Rightarrow> (exn + comment list) \<times> api_log" where
  "fetch_comments s st = (comments s, st\<lparr>fetches := fetches st + 1\<rparr>)"

text \<open>The slice \<open>xs[:k]\<close>; a negative \<open>k\<close> counts from the end.\<close>

definition slice_to :: "'a list \<Rightarrow> int \<Rightarrow> 'a list" where
  "slice_to xs k = (if k \<ge> 0 then take (nat k) xs else take (length xs - nat (- k)) xs)"

text \<open>
  The \<open>for comment in ...\<close> loop.  It either leaves the function with
  \<open>return False\<close> or runs to the end with the final value of \<open>meaningful_comments\<close>.
\<close>

datatype loop_exit = Return_False | Fall_through int

fun comment_loop :: "int \<Rightarrow> comment list \<Rightarrow> int \<Rightarrow> loop_exit" where
  "comment_loop max_comments [] meaningful_comments = Fall_through meaningful_comments"
| "comment_loop max_comments (c # cs) meaningful_comments =
     (case body c of
        None \<Rightarrow> comment_loop max_comments cs meaningful_comments
      | Some b \<Rightarrow>
          if b \<noteq> [] then
            if \<not> (startswith (lower b) ''[deleted]'' \<or> startswith (lower b) ''[removed]'') then
              if is_meaningful_comment b then
                if meaningful_comments + 1 > max_comments div 2 then Return_False
                else comment_loop max_comments cs (meaningful_comments + 1)
              else comment_loop max_comments cs meaningful_comments
            else comment_loop max_comments cs meaningful_comments
          else comment_loop max_comments cs meaningful_comments)"

text \<open>The inner \<open>try\<close> block with its handler \<open>except: return True\<close>.\<close>

definition comment_quality_branch :: "submission \<Rightarrow> int \<Rightarrow> api_log \<Rightarrow> bool \<times> api_log" where
  "comment_quality_branch s max_comments st =
     (case fetch_comments s st of
        (Inl e, st') \<Rightarrow> (True, st')
      | (Inr cs, st') \<Rightarrow>
          (case comment_loop max_comments (slice_to cs (max_comments + 2)) 0 of
             Return_False \<Rightarrow> (False, st')
           | Fall_through m \<Rightarrow> (True, st')))"

text \<open>The body of the outer \<open>try\<close> block: \<open>Inl\<close> when one of its reads raises.\<close>

definition try_body :: "submission \<Rightarrow> int \<Rightarrow> api_log \<Rightarrow> (exn + bool) \<times> api_log" where
  "try_body s max_comments st0 =
     (case read_num_comments s st0 of
        (Inl e, st1) \<Rightarrow> (Inl e, st1)
      | (Inr n1, st1) \<Rightarrow>
          if n1 = 0 then (Inr True, st1)
          else
            (case read_num_comments s st1 of
               (Inl e, st2) \<Rightarrow> (Inl e, st2)
             | (Inr n2, st2) \<Rightarrow>
                 if n2 > max_comments * 2 then (Inr False, st2)
                 else
                   (case read_num_comments s st2 of
                      (Inl e, st3) \<Rightarrow> (Inl e, st3)
                    | (Inr n3, st3) \<Rightarrow>
                        if n3 \<le> max_comments then
                          (case comment_quality_branch s max_comments st3 of
                             (b, st4) \<Rightarrow> (Inr b, st4))
                        else (Inr False, st3))))"

text \<open>
  The whole function.  The outer handler reads the attribute once more; if that read
  raises too, the exception leaves the function (\<open>Inl\<close>).
\<close>

definition is_unanswered_enhanced :: "submission \<Rightarrow> int \<Rightarrow> api_log \<Rightarrow> (exn + bool) \<times> api_log" where
  "is_unanswered_enhanced s max_comments st =
     (case try_body s max_comments st of
        (Inr b, st') \<Rightarrow> (Inr b, st')
      | (Inl e, st') \<Rightarrow>
          (case read_num_comments s st' of
             (Inl e', st'') \<Rightarrow> (Inl e', st'')
           | (Inr n, st'') \<Rightarrow> (Inr (n \<le> max_comments), st'')))"

section \<open>The per-post filters of \<open>search_unanswered_questions_enhanced\<close>\<close>

record search_options =
  min_score :: int
  relevance_threshold :: real
  max_comments_threshold :: int
  question_only_mode :: bool
  filter_promotional :: bool
  min_content_length :: int

text \<open>
  What one pass of the loop body does with a submission: which \<open>continue\<close> it takes,
  or whether the post is appended to the results.  Of the appended row only the relevance
  and the \<open>Comments\<close> entry are kept; building the row reads \<open>submission.num_comments\<close>
  once more.  \<open>Raised\<close> is an exception that leaves the loop body.
\<close>

datatype step =
    Skipped_score | Skipped_length | Skipped_promotional | Skipped_not_question
  | Skipped_relevance | Skipped_answered | Appended real int | Raised exn

definition process_submission ::
  "search_options \<Rightarrow> string \<Rightarrow> submission \<Rightarrow> api_log \<Rightarrow> step \<times> api_log" where
  "process_submission opts keyword sub st =
     (if score sub < min_score opts then (Skipped_score, st)
      else
        (let content_length = (if selftext sub \<noteq> [] then int (length (selftext sub)) else 0) in
         if content_length < min_content_length opts \<and> \<not> endswith (title sub) ''?''
         then (Skipped_length, st)
         else if filter_promotional opts \<and> is_promotional_content (title sub) (selftext sub)
         then (Skipped_promotional, st)
         else if question_only_mode opts \<and> \<not> is_genuine_question (title sub) (selftext sub)
         then (Skipped_not_question, st)
         else
           (let relevance =
                  calculate_enhanced_relevance_score (title sub) (selftext sub) keyword in
            if relevance < relevance_threshold opts then (Skipped_relevance, st)
            else
              (case is_unanswered_enhanced sub (max_comments_threshold opts) st of
                 (Inl e, st') \<Rightarrow> (Raised e, st')
               | (Inr unanswered, st') \<Rightarrow>
                   if unanswered then
                     (case read_num_comments sub st' of
                        (Inl e, st'') \<Rightarrow> (Raised e, st'')
                      | (Inr n, st'') \<Rightarrow> (Appended relevance n, st''))
                   else (Skipped_answered, st')))))"

section \<open>Auxiliary notions for the statements\<close>

text \<open>
  The three nested conditions of the loop under which \<open>meaningful_comments\<close> is
  incremented, read off \<open>comment_loop\<close>: the object has a non-empty body, the
  lowercased body does not start with a deletion marker, and the quality filter accepts it.
\<close>

definition counted :: "comment \<Rightarrow> bool" where
  "counted c =
     (case body c of
        None \<Rightarrow> False
      | Some b \<Rightarrow> b \<noteq> []
          \<and> \<not> (startswith (lower b) ''[deleted]'' \<or> startswith (lower b) ''[removed]'')
          \<and> is_meaningful_comment b)"

text \<open>
  The specification's notion for the decision table: a fetched comment is meaningful when
  CommentQualityFilter accepts its body.
\<close>

definition spec_meaningful :: "comment \<Rightarrow> bool" where
  "spec_meaningful c = (case body c of None \<Rightarrow> False | Some b \<Rightarrow> is_meaningful_comment b)"

subsection \<open>Example inputs\<close>

text \<open>Every read of \<open>num_comments\<close> returns \<open>n\<close>.\<close>

definition always_reads :: "int \<Rightarrow> nat \<Rightarrow> exn + int" where
  "always_reads n k = Inr n"

text \<open>The first \<open>j\<close> reads of \<open>num_comments\<close> raise, the later ones return \<open>n\<close>.\<close>

definition raises_until :: "nat \<Rightarrow> int \<Rightarrow> nat \<Rightarrow> exn + int" where
  "raises_until j n k = (if k < j then Inl Exception else Inr n)"

fun with_body :: "string \<Rightarrow> comment" where
  "with_body b = \<lparr>body = Some b\<rparr>"

definition example_post :: "int \<Rightarrow> string list \<Rightarrow> submission" where
  "example_post n bodies =
     \<lparr>title = ''Best SEO course for beginners?'',
      selftext = ''Please recommend course material or a tutorial'',
      score = 3,
      num_comments = always_reads n,
      comments = Inr (map with_body bodies)\<rparr>"

definition example_options :: search_options where
  "example_options =
     \<lparr>min_score = 0, relevance_threshold = float_lit 0.3, max_comments_threshold = 5,
      question_only_mode = True, filter_promotional = True, min_content_length = 50\<rparr>"

definition fresh :: api_log where
  "fresh = \<lparr>reads = 0, fetches = 0\<rparr>"

definition thanks_reply :: string where
  "thanks_reply = ''thanks''"

definition detailed_reply :: string where
  "detailed_reply =
     ''I recommend trying the free Moz course, it really worked for me and covers on-page SEO basics well''"

definition marked_reply :: string where
  "marked_reply = ''[deleted] but I recommend you try this solution today''"

section \<open>Facts about the string operations\<close>

lemma str_in_sublist: "str_in sub s = sublist sub s"
  by (induction s) (auto simp: sublist_Cons_right)

lemma str_in_append_right: "str_in p x \<Longrightarrow> str_in p (x @ e)"
  unfolding str_in_sublist sublist_def by (metis append.assoc)

lemma str_in_rev: "str_in (rev sub) (rev s) = str_in sub s"
  by (simp add: str_in_sublist)

lemma str_in_dropWhile:
  "sub \<noteq> [] \<Longrightarrow> \<not> P (hd sub) \<Longrightarrow> str_in sub (dropWhile P s) = str_in sub s"
proof (induction s)
  case Nil
  then show ?case by simp
next
  case (Cons c cs)
  then show ?case by (cases sub) auto
qed

text \<open>
  Stripping cannot create or destroy an occurrence of a phrase that begins and ends with
  a non-whitespace character.
\<close>

lemma str_in_strip:
  assumes "sub \<noteq> []" "\<not> isspace (hd sub)" "\<not> isspace (last sub)"
  shows "str_in sub (strip s) = str_in sub s"
proof -
  have "str_in sub (strip s) = str_in (rev sub) (dropWhile isspace (rev (dropWhile isspace s)))"
    unfolding strip_def by (metis str_in_rev rev_rev_ident)
  also have "\<dots> = str_in (rev sub) (rev (dropWhile isspace s))"
    using assms by (intro str_in_dropWhile) (simp_all add: hd_rev)
  also have "\<dots> = str_in sub (dropWhile isspace s)"
    by (rule str_in_rev)
  also have "\<dots> = str_in sub s"
    using assms by (intro str_in_dropWhile)
  finally show ?thesis .
qed

lemma strip_Nil: "strip [] = []"
  by (simp add: strip_def)

lemma lower_Nil: "lower [] = []"
  by (simp add: lower_def)

lemma lower_append: "lower (x @ y) = lower x @ lower y"
  by (simp add: lower_def)

lemma any_in_set: "any_in ws text = (\<exists>w \<in> set ws. str_in w text)"
  by (simp add: any_in_def list_ex_iff)

section \<open>Facts about the float model\<close>

lemma pow2_pos: "0 < pow2 e"
  by (simp add: pow2_def)

lemma round_half_even_nonneg: "0 \<le> y \<Longrightarrow> 0 \<le> round_half_even y"
  by (simp add: round_half_even_def Let_def)

lemma nearest_nonneg: "0 \<le> x \<Longrightarrow> 0 \<le> nearest x"
  unfolding nearest_def Let_def
  by (intro mult_nonneg_nonneg) (simp_all add: round_half_even_nonneg less_imp_le[OF pow2_pos])

lemma round_double_nonneg: "0 \<le> x \<Longrightarrow> 0 \<le> round_double x"
  by (simp add: round_double_def nearest_nonneg)

lemma float_add_nonneg: "0 \<le> a \<Longrightarrow> 0 \<le> b \<Longrightarrow> 0 \<le> float_add a b"
  by (simp add: float_add_def round_double_nonneg)

lemma float_mul_nonneg: "0 \<le> a \<Longrightarrow> 0 \<le> b \<Longrightarrow> 0 \<le> float_mul a b"
  by (simp add: float_mul_def round_double_nonneg)

lemma float_lit_nonneg: "0 \<le> r \<Longrightarrow> 0 \<le> float_lit r"
  by (simp add: float_lit_def round_double_nonneg)

lemma float_lit_zero: "float_lit 0 = 0"
  by (simp add: float_lit_def round_double_def)

lemma float_lit_one: "float_lit 1 = 1"
  by code_simp

lemma foldl_float_add_nonneg:
  "0 \<le> a \<Longrightarrow> (\<And>x. x \<in> set xs \<Longrightarrow> 0 \<le> x) \<Longrightarrow> 0 \<le> foldl float_add a xs"
  by (induction xs arbitrary: a) (simp_all add: float_add_nonneg)

text \<open>
  The rounding is the intended one: \<open>binade\<close> is the exponent of its argument, and the
  rounded value is a multiple of the spacing of that binade at most half a spacing away.
\<close>

lemma floorlog_real_bounds:
  assumes "0 < n"
  shows "(2::real) ^ (floorlog 2 n - 1) \<le> real n" and "real n + 1 \<le> (2::real) ^ floorlog 2 n"
proof -
  have b: "2 ^ (floorlog 2 n - 1) \<le> n" "Suc n \<le> 2 ^ floorlog 2 n"
    using floorlog_bounds[of n 2] assms by simp_all
  have "real (2 ^ (floorlog 2 n - 1)) \<le> real n"
    using b(1) by (simp only: of_nat_le_iff)
  then show "(2::real) ^ (floorlog 2 n - 1) \<le> real n"
    by simp
  have "real (Suc n) \<le> real (2 ^ floorlog 2 n)"
    using b(2) by (simp only: of_nat_le_iff)
  then show "real n + 1 \<le> (2::real) ^ floorlog 2 n"
    by simp
qed

lemma binade_bounds:
  assumes "0 < x"
  shows "pow2 (binade x) \<le> x \<and> x < pow2 (binade x + 1)"
proof (cases "1 \<le> x")
  case True
  define n where "n = nat \<lfloor>x\<rfloor>"
  have n: "0 < n" "real n \<le> x" "x < real n + 1"
    using True by (simp_all add: n_def)
  have pos: "0 < floorlog 2 n"
    using n(1) by (simp add: floorlog_def)
  have e: "binade x = int (floorlog 2 n) - 1"
    using True by (simp add: binade_def n_def)
  have lo: "pow2 (binade x) = 2 ^ (floorlog 2 n - 1)"
    using pos by (simp add: e pow2_def nat_diff_distrib')
  have hi: "pow2 (binade x + 1) = 2 ^ floorlog 2 n"
    by (simp add: e pow2_def)
  show ?thesis
    unfolding lo hi using floorlog_real_bounds[OF n(1)] n by linarith
next
  case False
  define y where "y = 1 / x"
  define m where "m = nat (\<lceil>y\<rceil> - 1)"
  have y: "1 < y" using False assms by (simp add: y_def)
  have m1: "real m < y"
    using y unfolding m_def by linarith
  have m2: "y \<le> real m + 1"
    using y unfolding m_def by linarith
  have m3: "0 < m"
    using y unfolding m_def by linarith
  have pos: "0 < floorlog 2 m"
    using m3 by (simp add: floorlog_def)
  have e: "binade x = - int (floorlog 2 m)"
    using False by (simp add: binade_def m_def y_def)
  have lo: "pow2 (binade x) = 1 / 2 ^ floorlog 2 m"
    using pos by (simp add: e pow2_def)
  have hi: "pow2 (binade x + 1) = 1 / 2 ^ (floorlog 2 m - 1)"
  proof (cases "floorlog 2 m = 1")
    case True
    then show ?thesis by (simp add: e pow2_def)
  next
    case False
    with pos have "1 < floorlog 2 m" by simp
    then have "nat (int (floorlog 2 m) - 1) = floorlog 2 m - 1" by simp
    with \<open>1 < floorlog 2 m\<close> show ?thesis by (simp add: e pow2_def)
  qed
  have up: "(2::real) ^ (floorlog 2 m - 1) < y"
    using floorlog_real_bounds(1)[OF m3] m1 by linarith
  have dn: "y \<le> (2::real) ^ floorlog 2 m"
    using floorlog_real_bounds(2)[OF m3] m2 by linarith
  have x: "x = 1 / y" by (simp add: y_def)
  have ypos: "0 < y" using y by simp
  have "1 / 2 ^ floorlog 2 m \<le> 1 / y"
    using dn ypos by (simp add: frac_le)
  then have l: "1 / 2 ^ floorlog 2 m \<le> x"
    by (simp only: x)
  have "1 / y < 1 / 2 ^ (floorlog 2 m - 1)"
    using up by (simp add: frac_less2)
  then have h: "x < 1 / 2 ^ (floorlog 2 m - 1)"
    by (simp only: x)
  from l h show ?thesis
    unfolding lo hi by blast
qed

lemma round_half_even_close: "\<bar>of_int (round_half_even y) - y\<bar> \<le> 1 / 2"
  unfolding round_half_even_def Let_def by (auto simp: abs_if) linarith+

lemma nearest_close:
  "\<bar>nearest x - x\<bar> \<le> pow2 (binade x - 52) / 2"
proof -
  define q where "q = pow2 (binade x - 52)"
  have q: "0 < q" by (simp add: q_def pow2_pos)
  have "nearest x - x = q * (of_int (round_half_even (x / q)) - x / q)"
    using q by (simp add: nearest_def q_def[symmetric] algebra_simps)
  then have "\<bar>nearest x - x\<bar> = q * \<bar>of_int (round_half_even (x / q)) - x / q\<bar>"
    using q by (simp add: abs_mult)
  also have "\<dots> \<le> q * (1 / 2)"
    using q round_half_even_close[of "x / q"] by (intro mult_left_mono) simp_all
  finally show ?thesis by (simp add: q_def)
qed

lemma pow2_power_int: "pow2 e = power_int 2 e"
  by (simp add: pow2_def power_int_def field_simps)

lemma pow2_add: "pow2 (a + b) = pow2 a * pow2 b"
  by (simp add: pow2_power_int power_int_add)

lemma round_half_even_between:
  "of_int lo \<le> y \<Longrightarrow> y \<le> of_int hi \<Longrightarrow>
     lo \<le> round_half_even y \<and> round_half_even y \<le> hi"
  unfolding round_half_even_def Let_def by (auto simp: le_floor_iff) linarith+

text \<open>The significand of a rounded positive number has 53 bits (or is \<open>2 ^ 53\<close>, the
  first number of the next binade).\<close>

lemma nearest_significand:
  assumes "0 < x"
  shows "2 ^ 52 \<le> round_half_even (x / pow2 (binade x - 52))
         \<and> round_half_even (x / pow2 (binade x - 52)) \<le> 2 ^ 53"
proof -
  define q where "q = pow2 (binade x - 52)"
  have q: "0 < q" by (simp add: q_def pow2_pos)
  have "pow2 (binade x) = q * pow2 52"
    using pow2_add[of "binade x - 52" 52] by (simp add: q_def)
  then have lo: "pow2 (binade x) = q * 2 ^ 52"
    by (simp add: pow2_def)
  have "pow2 (binade x + 1) = q * pow2 53"
    using pow2_add[of "binade x - 52" 53] by (simp add: q_def add.commute)
  then have hi: "pow2 (binade x + 1) = q * 2 ^ 53"
    by (simp add: pow2_def)
  have "q * 2 ^ 52 \<le> x" "x < q * 2 ^ 53"
    using binade_bounds[OF assms] by (simp_all add: lo hi)
  then have "2 ^ 52 \<le> x / q" "x / q \<le> 2 ^ 53"
    using q by (simp_all add: field_simps)
  then have "of_int (2 ^ 52) \<le> x / q" "x / q \<le> of_int (2 ^ 53)"
    by simp_all
  then show ?thesis
    unfolding q_def[symmetric] by (rule round_half_even_between)
qed

section \<open>Facts about the loops\<close>

lemma count_loop_filter:
  "count_loop phrases text n = n + length (filter (\<lambda>p. str_in p text) phrases)"
  unfolding count_loop_def by (induction phrases arbitrary: n) auto

lemma promo_score_filter:
  "promo_score text = length (filter (\<lambda>p. str_in p text) promo_indicators)
                    + length (filter (\<lambda>p. str_in p text) url_patterns)"
  by (simp add: promo_score_def count_loop_filter)

lemma filter_length_mono:
  "(\<And>x. P x \<Longrightarrow> Q x) \<Longrightarrow> length (filter P xs) \<le> length (filter Q xs)"
  by (induction xs) auto

lemma promo_score_mono: "promo_score x \<le> promo_score (x @ e)"
  unfolding promo_score_filter
  by (intro add_mono filter_length_mono str_in_append_right)

lemma related_loop_foldl:
  "related_loop terms text s =
     foldl float_add s
       (replicate (length (filter (\<lambda>t. str_in t text) terms)) (float_lit 0.15))"
  unfolding related_loop_def by (induction terms arbitrary: s) auto

lemma context_loop_once:
  "context_loop cs text s = (if any_in cs text then float_add s (float_lit 0.2) else s)"
  by (induction cs) (auto simp: any_in_def)

text \<open>
  The code's running score, stage by stage, is the float sum of the bonuses that the
  specification lists, taken in the order of the list.
\<close>

lemma score_as_sum:
  "calculate_enhanced_relevance_score t c k =
     min (if is_promotional_content t c then float_mul (spec_additive_sum t c k) (float_lit 0.3)
          else spec_additive_sum t c k) (float_lit 1.0)"
proof -
  define full where "full = combined_text t c"
  define s1 where "s1 = foldl float_add (float_lit 0.0) (spec_title_bonus t k)"
  define s2 where "s2 = foldl float_add s1 (spec_body_bonus c k)"
  define s3 where "s3 = foldl float_add s2 (spec_lexicon_bonus ''seo'' seo_related k full)"
  define s4 where "s4 = foldl float_add s3 (spec_lexicon_bonus ''course'' course_related k full)"
  define s5 where "s5 = foldl float_add s4 (spec_context_bonus full)"
  have cl: "(if c \<noteq> [] then lower c else []) = lower c"
    by (simp add: lower_Nil)
  have ft: "lower t @ '' '' @ lower c = full"
    by (simp add: full_def combined_text_def lower_def lower_char_def)
  have e1: "(if str_in (lower k) (lower t) then
              if list_ex (\<lambda>word. str_in (lower k) word \<or> str_in word (lower k))
                   (split (lower t))
              then float_add (float_add (float_lit 0.0) (float_lit 0.5)) (float_lit 0.2)
              else float_add (float_lit 0.0) (float_lit 0.5)
            else float_lit 0.0) = s1"
    by (simp add: s1_def spec_title_bonus_def)
  have e2: "(if str_in (lower k) (lower c) then float_add s1 (float_lit 0.3) else s1) = s2"
    by (simp add: s2_def spec_body_bonus_def)
  have e3: "(if str_in ''seo'' (lower k) then related_loop seo_related full s2 else s2) = s3"
    by (simp add: s3_def spec_lexicon_bonus_def related_loop_foldl)
  have e4: "(if str_in ''course'' (lower k) then related_loop course_related full s3 else s3) = s4"
    by (simp add: s4_def spec_lexicon_bonus_def related_loop_foldl)
  have e5: "context_loop question_contexts full s4 = s5"
    by (simp add: s5_def spec_context_bonus_def context_loop_once)
  have total: "spec_additive_sum t c k = s5"
    by (simp add: spec_additive_sum_def float_sum_def spec_bonuses_def
        s5_def s4_def s3_def s2_def s1_def full_def)
  have "calculate_enhanced_relevance_score t c k =
          min (if is_promotional_content t c then float_mul s5 (float_lit 0.3) else s5)
              (float_lit 1.0)"
    unfolding calculate_enhanced_relevance_score_def Let_def cl ft e1 e2 e3 e4 e5 ..
  then show ?thesis
    by (simp only: total)
qed

lemma spec_bonuses_nonneg: "x \<in> set (spec_bonuses t c k) \<Longrightarrow> 0 \<le> x"
  by (auto simp: spec_bonuses_def spec_title_bonus_def spec_body_bonus_def
      spec_lexicon_bonus_def spec_context_bonus_def float_lit_nonneg split: if_splits)

lemma spec_additive_sum_nonneg: "0 \<le> spec_additive_sum t c k"
  unfolding spec_additive_sum_def float_sum_def
  by (rule foldl_float_add_nonneg) (simp_all add: float_lit_zero spec_bonuses_nonneg)

lemma meaningful_indicators_edges:
  "ind \<in> set meaningful_indicators \<Longrightarrow>
     ind \<noteq> [] \<and> \<not> isspace (hd ind) \<and> \<not> isspace (last ind)"
  by (auto simp: meaningful_indicators_def isspace_def)

lemma any_in_indicators_strip:
  "any_in meaningful_indicators (strip s) = any_in meaningful_indicators s"
  unfolding any_in_set using meaningful_indicators_edges str_in_strip by blast

lemma comment_loop_skip:
  "\<not> counted c \<Longrightarrow> comment_loop mc (c # cs) m = comment_loop mc cs m"
  by (auto simp: counted_def split: option.splits)

lemma comment_loop_count:
  "counted c \<Longrightarrow> comment_loop mc (c # cs) m =
     (if m + 1 > mc div 2 then Return_False else comment_loop mc cs (m + 1))"
  by (auto simp: counted_def split: option.splits)

text \<open>
  The loop with its early return decides whether the number of counted comments of the
  whole list exceeds the threshold, as long as the running total starts at or below it.
\<close>

lemma comment_loop_total:
  "m \<le> mc div 2 \<Longrightarrow> comment_loop mc cs m =
     (if m + int (length (filter counted cs)) > mc div 2 then Return_False
      else Fall_through (m + int (length (filter counted cs))))"
proof (induction cs arbitrary: m)
  case Nil
  then show ?case by simp
next
  case (Cons c cs)
  show ?case
  proof (cases "counted c")
    case True
    with Cons show ?thesis
      by (simp add: comment_loop_count del: comment_loop.simps)
  next
    case False
    with Cons show ?thesis
      by (simp add: comment_loop_skip del: comment_loop.simps)
  qed
qed

lemma comment_loop_ignores:
  "\<not> counted c \<Longrightarrow> comment_loop mc (pre @ c # post) m = comment_loop mc (pre @ post) m"
proof (induction pre arbitrary: m)
  case Nil
  then show ?case by (simp add: comment_loop_skip del: comment_loop.simps)
next
  case (Cons p pre)
  then show ?case
    by (cases "counted p")
       (simp_all add: comment_loop_skip comment_loop_count del: comment_loop.simps)
qed

section \<open>Facts about the classifier's control flow\<close>

lemma slice_to_nonneg: "0 \<le> k \<Longrightarrow> slice_to xs k = take (nat k) xs"
  by (simp add: slice_to_def)

lemma branch_fetch_ok:
  assumes "comments s = Inr cs" "0 \<le> mc"
  shows "comment_quality_branch s mc st =
     (\<not> (mc div 2 < int (length (filter counted (take (nat (mc + 2)) cs)))),
      st\<lparr>fetches := fetches st + 1\<rparr>)"
proof -
  have "0 \<le> mc div 2" using assms(2) by simp
  then have "comment_loop mc (take (nat (mc + 2)) cs) 0 =
     (if 0 + int (length (filter counted (take (nat (mc + 2)) cs))) > mc div 2 then Return_False
      else Fall_through (0 + int (length (filter counted (take (nat (mc + 2)) cs)))))"
    by (rule comment_loop_total)
  then show ?thesis
    using assms by (simp add: comment_quality_branch_def fetch_comments_def slice_to_nonneg)
qed

lemma branch_fetch_raises:
  "comments s = Inl e \<Longrightarrow>
     comment_quality_branch s mc st = (True, st\<lparr>fetches := fetches st + 1\<rparr>)"
  by (simp add: comment_quality_branch_def fetch_comments_def)

lemma try_body_steady:
  assumes "\<forall>k. num_comments s k = Inr n"
  shows "try_body s mc st =
     (if n = 0 then (Inr True, st\<lparr>reads := reads st + 1\<rparr>)
      else if n > mc * 2 then (Inr False, st\<lparr>reads := reads st + 2\<rparr>)
      else if n \<le> mc then
        (case comment_quality_branch s mc (st\<lparr>reads := reads st + 3\<rparr>) of
           (b, st') \<Rightarrow> (Inr b, st'))
      else (Inr False, st\<lparr>reads := reads st + 3\<rparr>))"
  using assms by (simp add: try_body_def read_num_comments_def numeral_3_eq_3)

lemma unanswered_steady:
  assumes "\<forall>k. num_comments s k = Inr n"
  shows "is_unanswered_enhanced s mc st = try_body s mc st"
  unfolding is_unanswered_enhanced_def try_body_steady[OF assms]
  by (simp split: prod.splits)

lemma example_post_reads: "\<forall>k. num_comments (example_post n bodies) k = Inr n"
  by (simp add: example_post_def always_reads_def)

section \<open>The claims\<close>

text \<open>
  Claim C1.  For every title, body text and keyword, the relevance score returned by
  \<open>calculate_enhanced_relevance_score\<close> is at least 0 and at most 1.
\<close>

theorem relevance_score_in_unit_interval:
  "0 \<le> calculate_enhanced_relevance_score t c k
   \<and> calculate_enhanced_relevance_score t c k \<le> 1"
proof -
  have "0 \<le> float_mul (spec_additive_sum t c k) (float_lit 0.3)"
    by (intro float_mul_nonneg float_lit_nonneg spec_additive_sum_nonneg) simp
  then show ?thesis
    using spec_additive_sum_nonneg[of t c k] by (simp add: score_as_sum float_lit_one)
qed

theorem relevance_score_in_unit_interval_witness:
  "0 \<le> calculate_enhanced_relevance_score ''Best SEO deal for beginners?'' ''buy now'' ''seo''
   \<and> calculate_enhanced_relevance_score ''Best SEO deal for beginners?'' ''buy now'' ''seo'' \<le> 1"
  by (rule relevance_score_in_unit_interval)

text \<open>
  Claim C2, with the counting rule of the code.  Let every read of the comment count
  return \<open>n\<close>.  Reading the decision table from the top: \<open>n = 0\<close> gives unanswered
  without a comment fetch; otherwise \<open>n > 2 * max_comments\<close> gives answered without a
  fetch; \<open>n\<close> in \<open>(max_comments, 2 * max_comments]\<close> gives answered; and for
  \<open>0 < n \<le> max_comments\<close>, when the fetch succeeds, one fetch is made and the post is
  answered iff strictly more than \<open>max_comments div 2\<close> of the first \<open>max_comments + 2\<close>
  fetched objects are counted, where an object is counted when it has a non-empty body
  that does not start (lowercased) with \<open>[deleted]\<close> or \<open>[removed]\<close> and that the
  quality filter accepts.
\<close>

theorem unanswered_decision_table:
  assumes "\<forall>k. num_comments s k = Inr n"
  shows "(n = 0 \<longrightarrow> fst (is_unanswered_enhanced s mc st) = Inr True
                  \<and> fetches (snd (is_unanswered_enhanced s mc st)) = fetches st)
    \<and> (n \<noteq> 0 \<and> n > 2 * mc \<longrightarrow> fst (is_unanswered_enhanced s mc st) = Inr False
                  \<and> fetches (snd (is_unanswered_enhanced s mc st)) = fetches st)
    \<and> (mc < n \<and> n \<le> 2 * mc \<longrightarrow> fst (is_unanswered_enhanced s mc st) = Inr False)
    \<and> (0 < n \<and> n \<le> mc \<longrightarrow> (\<forall>cs. comments s = Inr cs \<longrightarrow>
          fst (is_unanswered_enhanced s mc st) =
            Inr (\<not> (mc div 2 < int (length (filter counted (take (nat (mc + 2)) cs)))))
          \<and> fetches (snd (is_unanswered_enhanced s mc st)) = fetches st + 1))"
proof (intro conjI impI allI)
  assume "n = 0"
  then show "fst (is_unanswered_enhanced s mc st) = Inr True"
    and "fetches (snd (is_unanswered_enhanced s mc st)) = fetches st"
    by (simp_all add: unanswered_steady[OF assms] try_body_steady[OF assms])
next
  assume "n \<noteq> 0 \<and> n > 2 * mc"
  then show "fst (is_unanswered_enhanced s mc st) = Inr False"
    and "fetches (snd (is_unanswered_enhanced s mc st)) = fetches st"
    by (simp_all add: unanswered_steady[OF assms] try_body_steady[OF assms])
next
  assume "mc < n \<and> n \<le> 2 * mc"
  then show "fst (is_unanswered_enhanced s mc st) = Inr False"
    by (simp add: unanswered_steady[OF assms] try_body_steady[OF assms])
next
  fix cs
  assume n: "0 < n \<and> n \<le> mc" and cs: "comments s = Inr cs"
  then have mc: "0 \<le> mc" by simp
  from n show "fst (is_unanswered_enhanced s mc st) =
            Inr (\<not> (mc div 2 < int (length (filter counted (take (nat (mc + 2)) cs)))))"
    and "fetches (snd (is_unanswered_enhanced s mc st)) = fetches st + 1"
    by (simp_all add: unanswered_steady[OF assms] try_body_steady[OF assms]
        branch_fetch_ok[OF cs mc])
qed

text \<open>
  The four rows at \<open>max_comments = 5\<close>: no comments; eleven comments; seven comments;
  and two comments, a bare thanks and a detailed reply, of which one is counted.
\<close>

theorem unanswered_decision_table_witness:
  "fst (is_unanswered_enhanced (example_post 0 []) 5 fresh) = Inr True
   \<and> fetches (snd (is_unanswered_enhanced (example_post 0 []) 5 fresh)) = 0
   \<and> fst (is_unanswered_enhanced (example_post 11 []) 5 fresh) = Inr False
   \<and> fetches (snd (is_unanswered_enhanced (example_post 11 []) 5 fresh)) = 0
   \<and> fst (is_unanswered_enhanced (example_post 7 []) 5 fresh) = Inr False
   \<and> fst (is_unanswered_enhanced (example_post 2 [thanks_reply, detailed_reply]) 5 fresh)
       = Inr True
   \<and> fetches (snd (is_unanswered_enhanced (example_post 2 [thanks_reply, detailed_reply])
       5 fresh)) = 1"
proof -
  have f: "fetches fresh = 0"
    by (simp add: fresh_def)
  have cs: "comments (example_post 2 [thanks_reply, detailed_reply])
              = Inr [with_body thanks_reply, with_body detailed_reply]"
    by (simp add: example_post_def)
  have one: "\<not> (5 div 2 < int (length (filter counted
               (take (nat (5 + 2)) [with_body thanks_reply, with_body detailed_reply]))))"
    by code_simp
  have r0: "fst (is_unanswered_enhanced (example_post 0 []) 5 fresh) = Inr True
            \<and> fetches (snd (is_unanswered_enhanced (example_post 0 []) 5 fresh)) = 0"
    using unanswered_decision_table[where s = "example_post 0 []" and n = 0 and mc = 5
        and st = fresh, OF example_post_reads] f by simp
  have r11: "fst (is_unanswered_enhanced (example_post 11 []) 5 fresh) = Inr False
            \<and> fetches (snd (is_unanswered_enhanced (example_post 11 []) 5 fresh)) = 0"
    using unanswered_decision_table[where s = "example_post 11 []" and n = 11 and mc = 5
        and st = fresh, OF example_post_reads] f by simp
  have r7: "fst (is_unanswered_enhanced (example_post 7 []) 5 fresh) = Inr False"
    using unanswered_decision_table[where s = "example_post 7 []" and n = 7 and mc = 5
        and st = fresh, OF example_post_reads] by simp
  have "(0::int) < 2 \<and> (2::int) \<le> 5"
    by simp
  with cs unanswered_decision_table[where s = "example_post 2 [thanks_reply, detailed_reply]"
        and n = 2 and mc = 5 and st = fresh, OF example_post_reads]
  have "fst (is_unanswered_enhanced (example_post 2 [thanks_reply, detailed_reply]) 5 fresh)
          = Inr (\<not> (5 div 2 < int (length (filter counted
               (take (nat (5 + 2)) [with_body thanks_reply, with_body detailed_reply])))))
        \<and> fetches (snd (is_unanswered_enhanced (example_post 2 [thanks_reply, detailed_reply])
            5 fresh)) = fetches fresh + 1"
    by blast
  with one f have r2:
    "fst (is_unanswered_enhanced (example_post 2 [thanks_reply, detailed_reply]) 5 fresh)
       = Inr True
     \<and> fetches (snd (is_unanswered_enhanced (example_post 2 [thanks_reply, detailed_reply])
         5 fresh)) = 1"
    by simp
  from r0 r11 r7 r2 show ?thesis
    by blast
qed

text \<open>
  Claim C2 as worded measures the evaluated comments with CommentQualityFilter alone.  The
  post below has one comment and \<open>max_comments = 1\<close>, so the threshold is
  \<open>1 div 2 = 0\<close>.  The filter accepts the comment's body, so one of the evaluated comments
  is meaningful and the table answers "answered"; the body starts with \<open>[deleted]\<close>, the
  loop passes over it, and the function returns unanswered.
\<close>

theorem unanswered_decision_table_counterexample:
  "num_comments (example_post 1 [marked_reply]) 0 = Inr 1
   \<and> comments (example_post 1 [marked_reply]) = Inr [with_body marked_reply]
   \<and> 1 div 2 < int (length (filter spec_meaningful
         (slice_to [with_body marked_reply] (1 + 2))))
   \<and> fst (is_unanswered_enhanced (example_post 1 [marked_reply]) 1 fresh) = Inr True"
  by code_simp

text \<open>
  Claim C3.  \<open>is_meaningful_comment\<close> accepts a body iff the trimmed body has at least
  15 characters, the lowercased and trimmed body is none of the low-quality phrases, the
  body has at least 5 whitespace-separated words, and it has at least 20 words or its
  lowercased text contains a meaningful-indicator phrase.  It rejects \<open>thanks\<close> and
  accepts the detailed recommendation.
\<close>

theorem comment_quality_filter_iff:
  "(is_meaningful_comment b \<longleftrightarrow>
      length (strip b) \<ge> 15 \<and> strip (lower b) \<notin> set low_quality \<and> length (split b) \<ge> 5
      \<and> (length (split b) \<ge> 20
          \<or> (\<exists>ind \<in> set meaningful_indicators. str_in ind (lower b))))
   \<and> \<not> is_meaningful_comment ''thanks''
   \<and> is_meaningful_comment
       ''I recommend trying the free Moz course, it really worked for me and covers on-page SEO basics well''"
proof (intro conjI)
  show "is_meaningful_comment b \<longleftrightarrow>
      length (strip b) \<ge> 15 \<and> strip (lower b) \<notin> set low_quality \<and> length (split b) \<ge> 5
      \<and> (length (split b) \<ge> 20
          \<or> (\<exists>ind \<in> set meaningful_indicators. str_in ind (lower b)))"
    unfolding is_meaningful_comment_def Let_def any_in_indicators_strip
    by (cases "b = []") (auto simp: any_in_set strip_Nil)
  show "\<not> is_meaningful_comment ''thanks''"
    by code_simp
  show "is_meaningful_comment
       ''I recommend trying the free Moz course, it really worked for me and covers on-page SEO basics well''"
    by code_simp
qed

text \<open>
  At a nine-word reply: it is long enough, is no low-quality phrase, has five words and
  contains \<open>recommend\<close>, so the filter accepts it.
\<close>

theorem comment_quality_filter_iff_witness:
  "length (strip ''You could try the plugin I recommend to everyone'') \<ge> 15
   \<and> length (split ''You could try the plugin I recommend to everyone'') \<ge> 5
   \<and> str_in ''recommend'' (lower ''You could try the plugin I recommend to everyone'')
   \<and> is_meaningful_comment ''You could try the plugin I recommend to everyone''"
proof -
  have a: "length (strip ''You could try the plugin I recommend to everyone'') \<ge> 15"
    by code_simp
  have b: "strip (lower ''You could try the plugin I recommend to everyone'') \<notin> set low_quality"
    by code_simp
  have c: "length (split ''You could try the plugin I recommend to everyone'') \<ge> 5"
    by code_simp
  have d: "str_in ''recommend'' (lower ''You could try the plugin I recommend to everyone'')"
    by code_simp
  have e: "''recommend'' \<in> set meaningful_indicators"
    by (simp add: meaningful_indicators_def)
  from a b c d e
    comment_quality_filter_iff[where b = "''You could try the plugin I recommend to everyone''"]
  show ?thesis
    by blast
qed

text \<open>
  Claim C4.  When the promotional detector fires on the same title and body, the score is
  the float sum of the additive bonuses, multiplied by 0.3 and then capped at 1.0; when it
  does not fire, the score is that sum capped at 1.0.  The sum and the product are the
  rounded float operations of the code.
\<close>

theorem promotional_penalty_after_bonuses:
  "(is_promotional_content t c \<longrightarrow>
      calculate_enhanced_relevance_score t c k
        = min (float_mul (spec_additive_sum t c k) (float_lit 0.3)) (float_lit 1.0))
   \<and> (\<not> is_promotional_content t c \<longrightarrow>
      calculate_enhanced_relevance_score t c k
        = min (spec_additive_sum t c k) (float_lit 1.0))"
  by (simp add: score_as_sum)

text \<open>
  A promotional post: the bonuses 0.5, 0.2 and 0.2 add up to the double
  0.8999999999999999, and the score is the double 0.26999999999999996.  A post that is
  not promotional: the bonuses add up to the double nearest to 1.2 and the score is 1.
\<close>

theorem promotional_penalty_after_bonuses_witness:
  "is_promotional_content ''Best SEO deal for beginners?'' ''buy now''
   \<and> spec_additive_sum ''Best SEO deal for beginners?'' ''buy now'' ''seo''
       = 2026619832316723 / 2251799813685248
   \<and> calculate_enhanced_relevance_score ''Best SEO deal for beginners?'' ''buy now'' ''seo''
       = 4863887597560135 / 18014398509481984
   \<and> \<not> is_promotional_content ''Best SEO course for beginners?'' ''any tutorial''
   \<and> spec_additive_sum ''Best SEO course for beginners?'' ''any tutorial'' ''seo course''
       = 5404319552844595 / 4503599627370496
   \<and> calculate_enhanced_relevance_score ''Best SEO course for beginners?'' ''any tutorial''
         ''seo course'' = 1"
proof -
  have p: "is_promotional_content ''Best SEO deal for beginners?'' ''buy now''"
    by code_simp
  have ps: "spec_additive_sum ''Best SEO deal for beginners?'' ''buy now'' ''seo''
              = 2026619832316723 / 2251799813685248"
    by code_simp
  have pm: "min (float_mul (2026619832316723 / 2251799813685248) (float_lit 0.3)) (float_lit 1.0)
              = 4863887597560135 / 18014398509481984"
    by code_simp
  have q: "\<not> is_promotional_content ''Best SEO course for beginners?'' ''any tutorial''"
    by code_simp
  have qs: "spec_additive_sum ''Best SEO course for beginners?'' ''any tutorial'' ''seo course''
              = 5404319552844595 / 4503599627370496"
    by code_simp
  have qm: "min (5404319552844595 / 4503599627370496) (float_lit 1.0) = 1"
    by code_simp
  have "calculate_enhanced_relevance_score ''Best SEO deal for beginners?'' ''buy now'' ''seo''
          = min (float_mul (spec_additive_sum ''Best SEO deal for beginners?'' ''buy now''
                   ''seo'') (float_lit 0.3)) (float_lit 1.0)"
    using p promotional_penalty_after_bonuses[where t = "''Best SEO deal for beginners?''"
      and c = "''buy now''" and k = "''seo''"]
    by blast
  then have r1: "calculate_enhanced_relevance_score ''Best SEO deal for beginners?''
                   ''buy now'' ''seo'' = 4863887597560135 / 18014398509481984"
    by (simp only: ps pm)
  have "calculate_enhanced_relevance_score ''Best SEO course for beginners?'' ''any tutorial''
          ''seo course''
          = min (spec_additive_sum ''Best SEO course for beginners?'' ''any tutorial''
                   ''seo course'') (float_lit 1.0)"
    using q promotional_penalty_after_bonuses[where t = "''Best SEO course for beginners?''"
      and c = "''any tutorial''" and k = "''seo course''"]
    by blast
  then have r2: "calculate_enhanced_relevance_score ''Best SEO course for beginners?''
                   ''any tutorial'' ''seo course'' = 1"
    by (simp only: qs qm)
  from p ps r1 q qs r2 show ?thesis
    by blast
qed

text \<open>
  Claim C5.  \<open>is_genuine_question\<close> holds iff the lowercased text "title, space, body"
  contains one of the question indicators, one of the help words or one of the seeking
  phrases.  It holds for ("How do I fix this?", "") and fails for ("Great deal!!!", "buy now").
\<close>

theorem question_detector_iff:
  "(is_genuine_question t c \<longleftrightarrow>
      (\<exists>w \<in> set [''?'', ''how'', ''what'', ''why'', ''which'', ''where'', ''when'', ''who''].
          str_in w (lower (t @ '' '' @ c)))
    \<or> (\<exists>w \<in> set [''help'', ''advice'', ''recommend'', ''suggest'', ''opinion'', ''thoughts''].
          str_in w (lower (t @ '' '' @ c)))
    \<or> (\<exists>w \<in> set [''looking for'', ''need'', ''want'', ''seeking'', ''trying to find''].
          str_in w (lower (t @ '' '' @ c))))
   \<and> is_genuine_question ''How do I fix this?'' ''''
   \<and> \<not> is_genuine_question ''Great deal!!!'' ''buy now''"
proof (intro conjI)
  show "is_genuine_question t c \<longleftrightarrow>
      (\<exists>w \<in> set [''?'', ''how'', ''what'', ''why'', ''which'', ''where'', ''when'', ''who''].
          str_in w (lower (t @ '' '' @ c)))
    \<or> (\<exists>w \<in> set [''help'', ''advice'', ''recommend'', ''suggest'', ''opinion'', ''thoughts''].
          str_in w (lower (t @ '' '' @ c)))
    \<or> (\<exists>w \<in> set [''looking for'', ''need'', ''want'', ''seeking'', ''trying to find''].
          str_in w (lower (t @ '' '' @ c)))"
    unfolding is_genuine_question_def Let_def any_in_set combined_text_def
      question_words_def help_words_def seeking_words_def ..
  show "is_genuine_question ''How do I fix this?'' ''''"
    by code_simp
  show "\<not> is_genuine_question ''Great deal!!!'' ''buy now''"
    by code_simp
qed

theorem question_detector_iff_witness:
  "str_in ''seeking'' (lower (''Seeking a mentor'' @ '' '' @ ''for SEO''))
   \<and> is_genuine_question ''Seeking a mentor'' ''for SEO''"
proof -
  have a: "str_in ''seeking'' (lower (''Seeking a mentor'' @ '' '' @ ''for SEO''))"
    by code_simp
  have b: "''seeking'' \<in> set [''looking for'', ''need'', ''want'', ''seeking'', ''trying to find'']"
    by simp
  from a b question_detector_iff[where t = "''Seeking a mentor''" and c = "''for SEO''"]
  show ?thesis
    by blast
qed

text \<open>
  Claim C6.  \<open>is_promotional_content\<close> holds iff the number of promotional indicator
  phrases occurring in the lowercased text "title, space, body" plus the number of URL
  patterns occurring in it is at least 2.
\<close>

theorem promotional_detector_iff:
  "is_promotional_content t c \<longleftrightarrow>
     length (filter (\<lambda>p. str_in p (lower (t @ '' '' @ c))) promo_indicators)
     + length (filter (\<lambda>p. str_in p (lower (t @ '' '' @ c))) url_patterns) \<ge> 2"
  by (simp add: is_promotional_content_def promo_score_filter combined_text_def)

theorem promotional_detector_iff_witness:
  "length (filter (\<lambda>p. str_in p (lower (''Watch this'' @ '' '' @ ''Subscribe at youtu.be/x'')))
      promo_indicators)
   + length (filter (\<lambda>p. str_in p (lower (''Watch this'' @ '' '' @ ''Subscribe at youtu.be/x'')))
      url_patterns) = 2
   \<and> is_promotional_content ''Watch this'' ''Subscribe at youtu.be/x''"
proof -
  have a: "length (filter (\<lambda>p. str_in p
                (lower (''Watch this'' @ '' '' @ ''Subscribe at youtu.be/x''))) promo_indicators)
       + length (filter (\<lambda>p. str_in p
                (lower (''Watch this'' @ '' '' @ ''Subscribe at youtu.be/x''))) url_patterns) = 2"
    by code_simp
  from a promotional_detector_iff[where t = "''Watch this''" and c = "''Subscribe at youtu.be/x''"]
  show ?thesis
    by simp
qed

text \<open>
  Claim C7, with the handler's own read made explicit.  If the three reads of the comment
  count lead into the comment-quality branch and fetching or expanding the comments
  raises, the function returns unanswered.  If the body of the outer \<open>try\<close> raises, the
  handler reads the comment count again: when that read returns \<open>n\<close>, the function
  returns unanswered iff \<open>n \<le> max_comments\<close>; when that read raises too, its exception
  leaves the function and no verdict is returned.
\<close>

theorem unanswered_failure_modes:
  "(num_comments s (reads st) = Inr n1 \<and> n1 \<noteq> 0
      \<and> num_comments s (reads st + 1) = Inr n2 \<and> n2 \<le> mc * 2
      \<and> num_comments s (reads st + 2) = Inr n3 \<and> n3 \<le> mc
      \<and> comments s = Inl e
    \<longrightarrow> fst (is_unanswered_enhanced s mc st) = Inr True)
  \<and> (fst (try_body s mc st) = Inl e'
      \<and> num_comments s (reads (snd (try_body s mc st))) = Inr n
    \<longrightarrow> fst (is_unanswered_enhanced s mc st) = Inr (n \<le> mc))
  \<and> (fst (try_body s mc st) = Inl e'
      \<and> num_comments s (reads (snd (try_body s mc st))) = Inl e''
    \<longrightarrow> fst (is_unanswered_enhanced s mc st) = Inl e'')"
proof (intro conjI impI)
  assume "num_comments s (reads st) = Inr n1 \<and> n1 \<noteq> 0
      \<and> num_comments s (reads st + 1) = Inr n2 \<and> n2 \<le> mc * 2
      \<and> num_comments s (reads st + 2) = Inr n3 \<and> n3 \<le> mc
      \<and> comments s = Inl e"
  then have "try_body s mc st
               = (Inr True, st\<lparr>reads := reads st + 3, fetches := fetches st + 1\<rparr>)"
    by (simp add: try_body_def read_num_comments_def branch_fetch_raises)
  then show "fst (is_unanswered_enhanced s mc st) = Inr True"
    by (simp add: is_unanswered_enhanced_def)
next
  assume "fst (try_body s mc st) = Inl e'
      \<and> num_comments s (reads (snd (try_body s mc st))) = Inr n"
  then show "fst (is_unanswered_enhanced s mc st) = Inr (n \<le> mc)"
    by (cases "try_body s mc st")
       (simp add: is_unanswered_enhanced_def read_num_comments_def)
next
  assume "fst (try_body s mc st) = Inl e'
      \<and> num_comments s (reads (snd (try_body s mc st))) = Inl e''"
  then show "fst (is_unanswered_enhanced s mc st) = Inl e''"
    by (cases "try_body s mc st")
       (simp add: is_unanswered_enhanced_def read_num_comments_def)
qed

text \<open>
  A post with two comments whose fetch raises, at \<open>max_comments = 5\<close>; posts whose
  first read of the comment count raises while the handler then reads 3, respectively 7;
  and a post whose first two reads raise.
\<close>

theorem unanswered_failure_modes_witness:
  "fst (is_unanswered_enhanced ((example_post 2 [])\<lparr>comments := Inl Exception\<rparr>) 5 fresh)
     = Inr True
   \<and> fst (try_body ((example_post 3 [])\<lparr>num_comments := raises_until 1 3\<rparr>) 5 fresh)
       = Inl Exception
   \<and> fst (is_unanswered_enhanced ((example_post 3 [])\<lparr>num_comments := raises_until 1 3\<rparr>)
       5 fresh) = Inr True
   \<and> fst (is_unanswered_enhanced ((example_post 7 [])\<lparr>num_comments := raises_until 1 7\<rparr>)
       5 fresh) = Inr False
   \<and> fst (is_unanswered_enhanced ((example_post 3 [])\<lparr>num_comments := raises_until 2 3\<rparr>)
       5 fresh) = Inl Exception"
proof -
  have a: "num_comments ((example_post 2 [])\<lparr>comments := Inl Exception\<rparr>) (reads fresh) = Inr 2
      \<and> (2::int) \<noteq> 0
      \<and> num_comments ((example_post 2 [])\<lparr>comments := Inl Exception\<rparr>) (reads fresh + 1) = Inr 2
      \<and> (2::int) \<le> 5 * 2
      \<and> num_comments ((example_post 2 [])\<lparr>comments := Inl Exception\<rparr>) (reads fresh + 2) = Inr 2
      \<and> (2::int) \<le> 5
      \<and> comments ((example_post 2 [])\<lparr>comments := Inl Exception\<rparr>) = Inl Exception"
    by (simp add: example_post_def always_reads_def)
  have b3: "fst (try_body ((example_post 3 [])\<lparr>num_comments := raises_until 1 3\<rparr>) 5 fresh)
              = Inl Exception
      \<and> num_comments ((example_post 3 [])\<lparr>num_comments := raises_until 1 3\<rparr>)
          (reads (snd (try_body ((example_post 3 [])\<lparr>num_comments := raises_until 1 3\<rparr>)
             5 fresh))) = Inr 3"
    by code_simp
  have b7: "fst (try_body ((example_post 7 [])\<lparr>num_comments := raises_until 1 7\<rparr>) 5 fresh)
              = Inl Exception
      \<and> num_comments ((example_post 7 [])\<lparr>num_comments := raises_until 1 7\<rparr>)
          (reads (snd (try_body ((example_post 7 [])\<lparr>num_comments := raises_until 1 7\<rparr>)
             5 fresh))) = Inr 7"
    by code_simp
  have c3: "fst (try_body ((example_post 3 [])\<lparr>num_comments := raises_until 2 3\<rparr>) 5 fresh)
              = Inl Exception
      \<and> num_comments ((example_post 3 [])\<lparr>num_comments := raises_until 2 3\<rparr>)
          (reads (snd (try_body ((example_post 3 [])\<lparr>num_comments := raises_until 2 3\<rparr>)
             5 fresh))) = Inl Exception"
    by code_simp
  have r1: "fst (is_unanswered_enhanced ((example_post 2 [])\<lparr>comments := Inl Exception\<rparr>)
              5 fresh) = Inr True"
    using a unanswered_failure_modes[where s = "(example_post 2 [])\<lparr>comments := Inl Exception\<rparr>"
        and st = fresh and mc = 5 and ?n1.0 = 2 and ?n2.0 = 2 and ?n3.0 = 2 and e = Exception]
    by blast
  have r3: "fst (is_unanswered_enhanced ((example_post 3 [])\<lparr>num_comments := raises_until 1 3\<rparr>)
              5 fresh) = Inr ((3::int) \<le> 5)"
    using b3 unanswered_failure_modes[where
        s = "(example_post 3 [])\<lparr>num_comments := raises_until 1 3\<rparr>"
        and st = fresh and mc = 5 and e' = Exception and n = 3]
    by blast
  have r7: "fst (is_unanswered_enhanced ((example_post 7 [])\<lparr>num_comments := raises_until 1 7\<rparr>)
              5 fresh) = Inr ((7::int) \<le> 5)"
    using b7 unanswered_failure_modes[where
        s = "(example_post 7 [])\<lparr>num_comments := raises_until 1 7\<rparr>"
        and st = fresh and mc = 5 and e' = Exception and n = 7]
    by blast
  have r4: "fst (is_unanswered_enhanced ((example_post 3 [])\<lparr>num_comments := raises_until 2 3\<rparr>)
              5 fresh) = Inl Exception"
    using c3 unanswered_failure_modes[where
        s = "(example_post 3 [])\<lparr>num_comments := raises_until 2 3\<rparr>"
        and st = fresh and mc = 5 and e' = Exception and e'' = Exception]
    by blast
  from r1 b3 r3 r7 r4 show ?thesis
    by simp
qed

text \<open>
  Claim C7 as worded promises a verdict whenever the outer \<open>try\<close> raises.  For the post
  below every read of the comment count that the function makes raises (the count, 3,
  could only be read later).  The body of the outer \<open>try\<close> raises at its first read, the
  handler's read raises as well, and the function ends with that exception instead of the
  verdict \<open>3 \<le> 5\<close>.
\<close>

theorem unanswered_failure_modes_counterexample:
  "fst (try_body ((example_post 3 [])\<lparr>num_comments := raises_until 5 3\<rparr>) 5 fresh)
     = Inl Exception
   \<and> fst (is_unanswered_enhanced ((example_post 3 [])\<lparr>num_comments := raises_until 5 3\<rparr>)
         5 fresh) = Inl Exception
   \<and> fst (is_unanswered_enhanced ((example_post 3 [])\<lparr>num_comments := raises_until 5 3\<rparr>)
         5 fresh) \<noteq> Inr ((3::int) \<le> 5)"
  by code_simp

text \<open>
  Claim C8.  The promotional match count never decreases when text is appended: for
  every text and every extra text, the count on the lowercased extended text is at least
  the count on the lowercased original; in particular appending to the body of a post
  never decreases the count of its combined text.
\<close>

theorem promo_score_monotone:
  "promo_score (lower x) \<le> promo_score (lower (x @ extra))
   \<and> promo_score (combined_text t c) \<le> promo_score (combined_text t (c @ extra))"
proof -
  have "combined_text t (c @ extra) = combined_text t c @ lower extra"
    by (simp add: combined_text_def lower_def)
  then show ?thesis
    by (simp add: lower_append promo_score_mono)
qed

theorem promo_score_monotone_witness:
  "promo_score (lower ''Great deal'') = 1
   \<and> promo_score (lower (''Great deal'' @ '', buy now'')) = 2
   \<and> promo_score (lower ''Great deal'') \<le> promo_score (lower (''Great deal'' @ '', buy now''))"
proof -
  have a: "promo_score (lower ''Great deal'') = 1"
    by code_simp
  have b: "promo_score (lower (''Great deal'' @ '', buy now'')) = 2"
    by code_simp
  from a b promo_score_monotone[where x = "''Great deal''" and extra = "'', buy now''"]
  show ?thesis
    by blast
qed

text \<open>
  Claim C9.  A comment whose lowercased body starts with \<open>[deleted]\<close> or \<open>[removed]\<close>
  is never counted: wherever it stands among the evaluated comments, the loop ends as it
  does without that comment, with the same early return or the same total, whatever the
  quality filter says about the body.
\<close>

theorem marked_comments_not_counted:
  "body c = Some b \<Longrightarrow>
   startswith (lower b) ''[deleted]'' \<or> startswith (lower b) ''[removed]'' \<Longrightarrow>
   comment_loop mc (pre @ c # post) m = comment_loop mc (pre @ post) m"
  by (rule comment_loop_ignores) (auto simp: counted_def)

text \<open>
  The quality filter accepts the marked reply, yet with it the loop still ends with
  total 0.
\<close>

theorem marked_comments_not_counted_witness:
  "is_meaningful_comment marked_reply
   \<and> startswith (lower marked_reply) ''[deleted]''
   \<and> comment_loop 1 ([] @ with_body marked_reply # []) 0 = Fall_through 0"
proof -
  have a: "is_meaningful_comment marked_reply"
    by code_simp
  have b: "body (with_body marked_reply) = Some marked_reply"
    by simp
  have c: "startswith (lower marked_reply) ''[deleted]''"
    by code_simp
  then have d: "startswith (lower marked_reply) ''[deleted]''
                \<or> startswith (lower marked_reply) ''[removed]''"
    by simp
  have "comment_loop 1 ([] @ with_body marked_reply # []) 0 = comment_loop 1 ([] @ []) 0"
    using b d by (rule marked_comments_not_counted)
  with a c show ?thesis
    by simp
qed

text \<open>
  Claim C10.  The loop body skips a post at the content-length filter exactly when the
  post passed the score filter, its body is shorter than the configured minimum and its
  title does not end with a question mark; a post whose title ends with a question mark
  is never skipped there, whatever the length of its body.
\<close>

theorem content_length_filter:
  "(fst (process_submission opts kw sub st) = Skipped_length \<longleftrightarrow>
      \<not> score sub < min_score opts
      \<and> int (length (selftext sub)) < min_content_length opts
      \<and> \<not> endswith (title sub) ''?'')
   \<and> (endswith (title sub) ''?'' \<longrightarrow>
        fst (process_submission opts kw sub st) \<noteq> Skipped_length)"
proof -
  have len: "(if selftext sub \<noteq> [] then int (length (selftext sub)) else 0)
               = int (length (selftext sub))"
    by simp
  show ?thesis
    unfolding process_submission_def Let_def len
    by (simp split: prod.splits sum.splits)
qed

text \<open>
  The example post has a body of 46 characters, below the minimum of 50.  With its title
  ending in a question mark it passes the filter; with the question mark removed it is
  skipped.
\<close>

theorem content_length_filter_witness:
  "endswith (title (example_post 2 [])) ''?''
   \<and> int (length (selftext (example_post 2 []))) < min_content_length example_options
   \<and> fst (process_submission example_options ''seo course'' (example_post 2 []) fresh)
       \<noteq> Skipped_length
   \<and> fst (process_submission example_options ''seo course''
            ((example_post 2 [])\<lparr>title := ''Best SEO course for beginners''\<rparr>) fresh)
       = Skipped_length"
proof -
  have a: "endswith (title (example_post 2 [])) ''?''"
    by code_simp
  have b: "int (length (selftext (example_post 2 []))) < min_content_length example_options"
    by code_simp
  have c: "\<not> score ((example_post 2 [])\<lparr>title := ''Best SEO course for beginners''\<rparr>)
               < min_score example_options
      \<and> int (length (selftext ((example_post 2 [])\<lparr>title := ''Best SEO course for beginners''\<rparr>)))
          < min_content_length example_options
      \<and> \<not> endswith (title ((example_post 2 [])\<lparr>title := ''Best SEO course for beginners''\<rparr>))
            ''?''"
    by code_simp
  from a b c
    content_length_filter[where opts = example_options and kw = "''seo course''"
      and sub = "example_post 2 []" and st = fresh]
    content_length_filter[where opts = example_options and kw = "''seo course''"
      and sub = "(example_post 2 [])\<lparr>title := ''Best SEO course for beginners''\<rparr>" and st = fresh]
  show ?thesis
    by blast
qed

end
